theory Spec2Isabelle
  imports
    Complex_Main
    "HOL-Library.Sublist"
    "HOL-Library.Log_Nat"
    "HOL-Library.Char_ord"
    "HOL-Library.List_Lexorder"
    "HOL-Library.Product_Lexorder"
begin

chapter \<open>Fix&Furn: the tools of \<^verbatim>\<open>tools.py\<close> and the orchestrator of \<^verbatim>\<open>app.py\<close>\<close>

text \<open>
  A shallow embedding of the two Python modules. Module-level tables that are read
  from data files (\<^verbatim>\<open>CATALOG\<close>, \<^verbatim>\<open>PRICE_RULES\<close>, the CSV rows) are parameters.
  Python exceptions are values of \<open>exc\<close>; a function that can raise returns
  \<open>exc + 'a\<close>. The hosted model is a sequence of responses; the clock is a parameter.
\<close>

section \<open>Python text\<close>

text \<open>
  A \<^verbatim>\<open>str\<close> is a \<open>string\<close>; its characters are ASCII. \<^verbatim>\<open>str.strip()\<close> removes the
  characters for which \<^verbatim>\<open>str.isspace\<close> holds (tab to carriage return, the four
  separators 28 to 31, and the space); \<^verbatim>\<open>str.lower()\<close> maps A-Z to a-z; \<^verbatim>\<open>a in b\<close> on
  strings is \<open>sublist a b\<close>; \<^verbatim>\<open>b.startswith(a)\<close> is \<open>prefix a b\<close>.
\<close>

definition is_space :: "char \<Rightarrow> bool" where
  "is_space c = (let n = (of_char c :: nat) in (9 \<le> n \<and> n \<le> 13) \<or> (28 \<le> n \<and> n \<le> 32))"

definition lower_char :: "char \<Rightarrow> char" where
  "lower_char c = (let n = (of_char c :: nat) in if 65 \<le> n \<and> n \<le> 90 then char_of (n + 32) else c)"

definition lower :: "string \<Rightarrow> string" where
  "lower s = map lower_char s"

definition strip :: "string \<Rightarrow> string" where
  "strip s = rev (dropWhile is_space (rev (dropWhile is_space s)))"

text \<open>A word character of the regular expression \<^verbatim>\<open>\w\<close>: a letter, a digit or the underscore.\<close>

definition is_word :: "char \<Rightarrow> bool" where
  "is_word c = (let n = (of_char c :: nat) in
     (48 \<le> n \<and> n \<le> 57) \<or> (65 \<le> n \<and> n \<le> 90) \<or> n = 95 \<or> (97 \<le> n \<and> n \<le> 122))"

text \<open>
  \<^verbatim>\<open>re.split(r"\W+", s)\<close>: the pieces of \<open>s\<close> between the maximal runs of non-word
  characters, with an empty piece where \<open>s\<close> starts or ends with such a run.
\<close>

fun re_split_W :: "string \<Rightarrow> string list" where
  "re_split_W [] = [[]]"
| "re_split_W (c # cs) =
     (if is_word c then
        (case re_split_W cs of [] \<Rightarrow> [[c]] | w # ws \<Rightarrow> (c # w) # ws)
      else
        (case cs of
           [] \<Rightarrow> [[], []]
         | c' # _ \<Rightarrow> if is_word c' then [] # re_split_W cs else re_split_W cs))"

text \<open>\<^verbatim>\<open>re.sub(r"\s+", " ", s)\<close>: every run of white space becomes one space.\<close>

function re_sub_spaces :: "string \<Rightarrow> string" where
  "re_sub_spaces [] = []"
| "re_sub_spaces (c # cs) =
     (if is_space c then CHR '' '' # re_sub_spaces (dropWhile is_space cs)
      else c # re_sub_spaces cs)"
  by pat_completeness auto
termination
  by (relation "measure length") (auto simp: le_imp_less_Suc length_dropWhile_le)

text \<open>\<^verbatim>\<open>sep.join(xs)\<close>.\<close>

fun join :: "string \<Rightarrow> string list \<Rightarrow> string" where
  "join sep [] = []"
| "join sep [x] = x"
| "join sep (x # y # ys) = x @ sep @ join sep (y # ys)"

text \<open>The decimal digits of a natural number, as \<^verbatim>\<open>str(n)\<close> prints them.\<close>

fun str_nat :: "nat \<Rightarrow> string" where
  "str_nat n = (if n < 10 then [char_of (48 + n)] else str_nat (n div 10) @ [char_of (48 + n mod 10)])"

definition quoted :: "string \<Rightarrow> string" where
  "quoted s = [CHR 0x27] @ s @ [CHR 0x27]"

section \<open>Python values and exceptions\<close>

text \<open>
  The values that reach the tools from a function call of the model: JSON-like,
  dynamically typed. A dict is an association list in insertion order.
\<close>

datatype val =
    VNone
  | VBool bool
  | VNum rat
  | VStr string
  | VList "val list"
  | VDict "(string \<times> val) list"

datatype exc = TypeError string | AttributeError string

fun truthy :: "val \<Rightarrow> bool" where
  "truthy VNone = False"
| "truthy (VBool b) = b"
| "truthy (VNum x) = (x \<noteq> 0)"
| "truthy (VStr s) = (s \<noteq> [])"
| "truthy (VList xs) = (xs \<noteq> [])"
| "truthy (VDict kvs) = (kvs \<noteq> [])"

text \<open>\<^verbatim>\<open>a or b\<close>.\<close>

definition py_or :: "val \<Rightarrow> val \<Rightarrow> val" where
  "py_or a b = (if truthy a then a else b)"

fun type_name :: "val \<Rightarrow> string" where
  "type_name VNone = ''NoneType''"
| "type_name (VBool b) = ''bool''"
| "type_name (VNum x) = ''float''"
| "type_name (VStr s) = ''str''"
| "type_name (VList xs) = ''list''"
| "type_name (VDict kvs) = ''dict''"

text \<open>\<^verbatim>\<open>v.strip()\<close>: only a \<^verbatim>\<open>str\<close> has the method; anything else raises AttributeError.\<close>

fun py_strip :: "val \<Rightarrow> exc + string" where
  "py_strip (VStr s) = Inr (strip s)"
| "py_strip v = Inl (AttributeError (quoted (type_name v) @ '' object has no attribute '' @ quoted ''strip''))"

section \<open>Python floats and \<^verbatim>\<open>round\<close>\<close>

text \<open>
  A \<^verbatim>\<open>float\<close> is an IEEE 754 binary64 number, modelled by the rational it denotes.
  Every arithmetic operation returns the exact result rounded to 53 significant bits,
  ties to even (\<open>binary64\<close>). The exponent range is not bounded here: overflow to
  infinity and subnormal numbers need magnitudes above \<open>2^1023\<close> or below \<open>2^-1022\<close>.
  \<^verbatim>\<open>round(x)\<close> with one argument rounds a float to the nearest \<^verbatim>\<open>int\<close>, ties to even.
\<close>

definition py_round :: "rat \<Rightarrow> int" where
  "py_round x = (let f = \<lfloor>x\<rfloor>; d = x - of_int f in
     if d < 1 / 2 then f else if 1 / 2 < d then f + 1 else if even f then f else f + 1)"

text \<open>The binary exponent \<open>\<lfloor>log\<^sub>2 x\<rfloor>\<close> of a positive rational.\<close>

definition expo :: "rat \<Rightarrow> int" where
  "expo x = (let (p, q) = quotient_of x; k = bitlen p - bitlen q in
      if 2 powi k \<le> x then k else k - 1)"

definition binary64_pos :: "rat \<Rightarrow> rat" where
  "binary64_pos x = (let e = expo x - 52 in of_int (py_round (x / 2 powi e)) * 2 powi e)"

definition binary64 :: "rat \<Rightarrow> rat" where
  "binary64 x = (if x = 0 then 0 else if x < 0 then - binary64_pos (- x) else binary64_pos x)"

text \<open>
  \<^verbatim>\<open>n * 0.9\<close> with an \<^verbatim>\<open>int\<close> \<open>n\<close> converts \<open>n\<close> to a float and multiplies two floats;
  a decimal literal denotes the nearest float; \<^verbatim>\<open>a / b\<close> on two \<^verbatim>\<open>int\<close>s is the correctly
  rounded quotient.
\<close>

definition float_literal :: "rat \<Rightarrow> rat" where
  "float_literal x = binary64 x"

definition float_of_int :: "int \<Rightarrow> rat" where
  "float_of_int n = binary64 (of_int n)"

definition float_mul :: "rat \<Rightarrow> rat \<Rightarrow> rat" where
  "float_mul x y = binary64 (x * y)"

definition int_truediv :: "int \<Rightarrow> int \<Rightarrow> rat" where
  "int_truediv a b = binary64 (of_int a / of_int b)"

text \<open>
  \<^verbatim>\<open>round(x, 2)\<close>: the float nearest to the two-decimal rounding (ties to even) of the
  exact value of \<open>x\<close>.
\<close>

definition round_2 :: "rat \<Rightarrow> rat" where
  "round_2 x = binary64 (of_int (py_round (x * 100)) / 100)"

section \<open>The results of the tools\<close>

record tier =
  price :: int
  days :: "int list"

record estimate =
  budget :: tier
  standard :: tier
  rush :: tier

text \<open>
  A curated catalog item (an object of \<^verbatim>\<open>catalog.json\<close>): the keys the code reads, each
  absent (\<open>None\<close>) or present, and the other keys. An entry of \<^verbatim>\<open>color_options\<close> may be
  \<^verbatim>\<open>null\<close> (\<open>None\<close>).
\<close>

record catalog_item =
  sku :: "string option"
  name :: "string option"
  category :: "string option"
  color_options :: "string option list option"
  other_keys :: "(string \<times> val) list"

text \<open>
  The dict that \<^verbatim>\<open>_load_ikea_catalog\<close> builds for a row: a fixed set of keys, so a record.
  \<open>search\<close> is the key \<^verbatim>\<open>_search\<close>; \<^verbatim>\<open>price_currency\<close> and \<^verbatim>\<open>price_note\<close> are functions of
  \<open>price_usd\<close> (see \<open>item_dict\<close>).
\<close>

record ikea_item =
  item_id :: string
  name :: string
  category :: string
  price_usd :: "rat option"
  sellable_online :: "bool option"
  link :: string
  other_colors :: string
  short_description :: string
  designer :: string
  dimensions_cm :: "(string \<times> rat) list"
  search :: string

record lookup_result =
  query :: string
  catalog_match :: "catalog_item option"
  catalog_results :: "catalog_item list option"
  catalog_category :: "catalog_item list option"
  ikea_results :: "(string \<times> val) list list option"

text \<open>
  A ToolResult. \<open>Failure msg\<close> is \<^verbatim>\<open>{"ok": False, "msg": msg}\<close>, \<open>Ack msg\<close> is
  \<^verbatim>\<open>{"ok": True, "msg": msg}\<close>, \<open>Products r\<close> is the dict \<^verbatim>\<open>lookup_product\<close> fills, with a
  key for every field of \<open>r\<close> that is not \<open>None\<close>, and \<open>Estimate issue material size tiers\<close> is
  the dict \<^verbatim>\<open>estimate_repair\<close> returns.
\<close>

datatype tool_result =
    Failure string
  | Ack string
  | Products lookup_result
  | Estimate string string string estimate

fun ok :: "tool_result \<Rightarrow> bool" where
  "ok (Failure m) = False"
| "ok (Ack m) = True"
| "ok (Products r) = True"
| "ok (Estimate i m s t) = True"

section \<open>\<^verbatim>\<open>tools.py\<close>: the reference dataset\<close>

definition SAR_TO_USD :: rat where
  "SAR_TO_USD = float_literal (2667 / 10000)"

text \<open>
  \<^verbatim>\<open>_to_float\<close>. The builtin \<^verbatim>\<open>float\<close> is the parameter \<open>py_float\<close>: \<open>None\<close> where it
  raises ValueError.
\<close>

definition to_float :: "(string \<Rightarrow> rat option) \<Rightarrow> string option \<Rightarrow> rat option" where
  "to_float py_float x =
     (case x of
        None \<Rightarrow> None
      | Some v \<Rightarrow>
          (let v = strip v in
           if v = [] \<or> prefix ''no '' (lower v) then None else py_float v))"

definition to_bool :: "string option \<Rightarrow> bool option" where
  "to_bool x =
     (case x of
        None \<Rightarrow> None
      | Some v \<Rightarrow>
          (let v = lower (strip v) in
           if v \<in> set [''true'', ''yes'', ''y'', ''1''] then Some True
           else if v \<in> set [''false'', ''no'', ''n'', ''0''] then Some False
           else None))"

text \<open>A row of \<^verbatim>\<open>csv.DictReader\<close>: \<open>row k\<close> is \<^verbatim>\<open>row.get(k)\<close>. \<open>cell row k\<close> is
  \<^verbatim>\<open>(row.get(k) or "").strip()\<close>.\<close>

definition cell :: "(string \<Rightarrow> string option) \<Rightarrow> string \<Rightarrow> string" where
  "cell row k = strip (case row k of None \<Rightarrow> [] | Some v \<Rightarrow> v)"

text \<open>The body of the loop of \<^verbatim>\<open>_load_ikea_catalog\<close>: the item of a row, or \<open>None\<close> for a row
  that is skipped.\<close>

definition load_row :: "(string \<Rightarrow> rat option) \<Rightarrow> (string \<Rightarrow> string option) \<Rightarrow> ikea_item option" where
  "load_row py_float row =
    (let item_id' = cell row ''item_id'';
         name' = cell row ''name''
     in if item_id' = [] \<or> name' = [] then None
        else
          (let category' = cell row ''category'';
               price_sar = to_float py_float (row ''price'');
               price_usd' = (case price_sar of None \<Rightarrow> None
                             | Some p \<Rightarrow> Some (round_2 (float_mul p SAR_TO_USD)));
               width = to_float py_float (row ''width'');
               height = to_float py_float (row ''height'');
               depth = to_float py_float (row ''depth'');
               short_description' = cell row ''short_description'';
               short_description' =
                 (if short_description' \<noteq> [] then re_sub_spaces short_description'
                  else short_description');
               other_colors' = cell row ''other_colors'';
               other_colors' =
                 (if lower other_colors' \<in> set [''no'', ''n/a''] then [] else other_colors');
               sellable = to_bool (row ''sellable_online'');
               link' = cell row ''link'';
               designer' = cell row ''designer'';
               searchable =
                 join '' ''
                   (filter (\<lambda>s. s \<noteq> [])
                      [lower item_id', lower name', lower category', lower short_description',
                       lower other_colors', lower designer'])
           in Some \<lparr>item_id = item_id', name = name', category = category',
                    price_usd = price_usd', sellable_online = sellable, link = link',
                    other_colors = other_colors', short_description = short_description',
                    designer = designer',
                    dimensions_cm =
                      concat (map (\<lambda>(k, v). case v of None \<Rightarrow> [] | Some x \<Rightarrow> [(k, x)])
                        [(''width'', width), (''height'', height), (''depth'', depth)]),
                    search = searchable\<rparr>))"

text \<open>\<^verbatim>\<open>_load_ikea_catalog\<close>: \<open>None\<close> when neither file exists, else the rows of the file.\<close>

definition load_ikea_catalog ::
  "(string \<Rightarrow> rat option) \<Rightarrow> (string \<Rightarrow> string option) list option \<Rightarrow> ikea_item list" where
  "load_ikea_catalog py_float csv =
     (case csv of
        None \<Rightarrow> []
      | Some rows \<Rightarrow> concat (map (\<lambda>row. case load_row py_float row of None \<Rightarrow> [] | Some it \<Rightarrow> [it]) rows))"

definition opt_val :: "('a \<Rightarrow> val) \<Rightarrow> 'a option \<Rightarrow> val" where
  "opt_val f x = (case x of None \<Rightarrow> VNone | Some y \<Rightarrow> f y)"

text \<open>The dict of an item, key by key in the order of the dict display.\<close>

definition item_dict :: "ikea_item \<Rightarrow> (string \<times> val) list" where
  "item_dict it =
     [(''item_id'', VStr (item_id it)),
      (''name'', VStr (ikea_item.name it)),
      (''category'', VStr (ikea_item.category it)),
      (''price_usd'', opt_val VNum (price_usd it)),
      (''price_currency'', (if price_usd it \<noteq> None then VStr ''USD'' else VNone)),
      (''price_note'',
         (if price_usd it \<noteq> None then VStr ''Converted from SAR at 1 SAR = 0.2667 USD''
          else VNone)),
      (''sellable_online'', opt_val VBool (sellable_online it)),
      (''link'', VStr (link it)),
      (''other_colors'', VStr (other_colors it)),
      (''short_description'', VStr (short_description it)),
      (''designer'', VStr (designer it)),
      (''dimensions_cm'', VDict (map (\<lambda>(k, x). (k, VNum x)) (dimensions_cm it))),
      (''_search'', VStr (search it))]"

text \<open>\<^verbatim>\<open>_copy_public_item\<close>.\<close>

definition copy_public_item :: "(string \<times> val) list \<Rightarrow> (string \<times> val) list" where
  "copy_public_item item = filter (\<lambda>(k, v). \<not> prefix ''_'' k) item"

text \<open>\<^verbatim>\<open>d[k] = v\<close> on a dict: an existing key keeps its place, a new key goes last.\<close>

fun dict_set :: "('k \<times> 'v) list \<Rightarrow> 'k \<Rightarrow> 'v \<Rightarrow> ('k \<times> 'v) list" where
  "dict_set [] k v = [(k, v)]"
| "dict_set ((k', v') # d) k v = (if k' = k then (k, v) # d else (k', v') # dict_set d k v)"

text \<open>The score of one item (lines 133 to 139 of \<^verbatim>\<open>_search_ikea_items\<close>).\<close>

definition score :: "string \<Rightarrow> string list \<Rightarrow> ikea_item \<Rightarrow> int" where
  "score q words item =
     (let s = 0;
          s = (if q = lower (item_id item) then s + 10 else s);
          s = (if sublist q (search item) then s + 3 else s);
          s = (if words \<noteq> [] then
                 s + int (length (filter (\<lambda>w. w \<noteq> [] \<and> sublist w (search item)) words))
               else s)
      in s)"

text \<open>One turn of the loop over \<^verbatim>\<open>IKEA_ITEMS\<close>: the dict \<^verbatim>\<open>scored\<close> after the item.\<close>

definition scored_step ::
  "string \<Rightarrow> string list \<Rightarrow> (string \<times> int \<times> ikea_item) list \<Rightarrow> ikea_item
     \<Rightarrow> (string \<times> int \<times> ikea_item) list" where
  "scored_step q words scored item =
     (let s = score q words item in
      if 0 < s then
        (case map_of scored (item_id item) of
           None \<Rightarrow> dict_set scored (item_id item) (s, item)
         | Some existing \<Rightarrow>
             if fst existing < s then dict_set scored (item_id item) (s, item) else scored)
      else scored)"

definition query_words :: "string \<Rightarrow> string list" where
  "query_words q = filter (\<lambda>w. w \<noteq> []) (re_split_W q)"

definition scored_dict :: "ikea_item list \<Rightarrow> string \<Rightarrow> (string \<times> int \<times> ikea_item) list" where
  "scored_dict ikea_items q = foldl (scored_step q (query_words q)) [] ikea_items"

text \<open>\<^verbatim>\<open>sorted(scored.values(), key=lambda pair: (-pair[0], pair[1]["name"]))\<close>: a stable sort;
  tuples compare lexicographically, strings by code point.\<close>

definition sorted_by_rank :: "(int \<times> ikea_item) list \<Rightarrow> (int \<times> ikea_item) list" where
  "sorted_by_rank pairs = sort_key (\<lambda>pair. (- fst pair, ikea_item.name (snd pair))) pairs"

text \<open>\<^verbatim>\<open>_search_ikea_items\<close>; \<open>limit\<close> is never negative (the only call passes the default).\<close>

definition search_ikea_items :: "ikea_item list \<Rightarrow> string \<Rightarrow> nat \<Rightarrow> (string \<times> val) list list" where
  "search_ikea_items ikea_items qry limit =
     (if ikea_items = [] then []
      else
        (let q = lower (strip qry) in
         if q = [] then []
         else
           (let scored = scored_dict ikea_items q in
            if scored = [] then []
            else
              (let top = sorted_by_rank (map snd scored)
               in map (\<lambda>pair. copy_public_item (item_dict (snd pair))) (take limit top)))))"

section \<open>\<^verbatim>\<open>tools.py\<close>: \<^verbatim>\<open>lookup_product\<close>\<close>

text \<open>\<^verbatim>\<open>item.get(k, "")\<close> on a key of type \<^verbatim>\<open>str\<close>.\<close>

definition get_str :: "string option \<Rightarrow> string" where
  "get_str x = (case x of None \<Rightarrow> [] | Some s \<Rightarrow> s)"

text \<open>The truth value of a catalog item: a dict is false when it has no key.\<close>

definition item_truthy :: "catalog_item \<Rightarrow> bool" where
  "item_truthy item =
     (sku item \<noteq> None \<or> catalog_item.name item \<noteq> None \<or> catalog_item.category item \<noteq> None
      \<or> color_options item \<noteq> None \<or> other_keys item \<noteq> [])"

definition name_hit :: "string \<Rightarrow> catalog_item \<Rightarrow> bool" where
  "name_hit q_lower item =
     (sublist q_lower (lower (get_str (catalog_item.name item)))
      \<or> list_ex (\<lambda>opt. sublist q_lower (lower (get_str opt)))
           (case color_options item of None \<Rightarrow> [] | Some opts \<Rightarrow> opts))"

text \<open>\<^verbatim>\<open>len(result)\<close>: the keys \<^verbatim>\<open>ok\<close> and \<^verbatim>\<open>query\<close> and one key for every channel that was set.\<close>

definition result_len :: "lookup_result \<Rightarrow> nat" where
  "result_len r =
     2 + (if catalog_match r \<noteq> None then 1 else 0) + (if catalog_results r \<noteq> None then 1 else 0)
       + (if catalog_category r \<noteq> None then 1 else 0) + (if ikea_results r \<noteq> None then 1 else 0)"

definition lookup_product :: "catalog_item list \<Rightarrow> ikea_item list \<Rightarrow> val \<Rightarrow> exc + tool_result" where
  "lookup_product catalog ikea_items qry =
     (case py_strip (py_or qry (VStr [])) of
        Inl e \<Rightarrow> Inl e
      | Inr q \<Rightarrow>
          if q = [] then Inr (Failure ''Please provide a product keyword, SKU, or IKEA item ID.'')
          else
            (let q_lower = lower q;
                 sku_match = List.find (\<lambda>item. lower (get_str (sku item)) = q_lower) catalog;
                 sku_found = (case sku_match of None \<Rightarrow> False | Some item \<Rightarrow> item_truthy item);
                 name_hits = filter (name_hit q_lower) catalog;
                 category_hits =
                   filter (\<lambda>item. lower (get_str (catalog_item.category item)) = q_lower) catalog;
                 ikea_hits = search_ikea_items ikea_items q_lower 5;
                 result =
                   \<lparr>query = q,
                    catalog_match = (if sku_found then sku_match else None),
                    catalog_results = (if name_hits \<noteq> [] \<and> \<not> sku_found then Some name_hits else None),
                    catalog_category = (if category_hits \<noteq> [] then Some category_hits else None),
                    ikea_results = (if ikea_hits \<noteq> [] then Some ikea_hits else None)\<rparr>
             in if result_len result = 2 then
                  Inr (Failure (''No products found for '' @ quoted q @ ''.''))
                else Inr (Products result)))"

section \<open>\<^verbatim>\<open>tools.py\<close>: \<^verbatim>\<open>estimate_repair\<close>\<close>

text \<open>
  \<^verbatim>\<open>PRICE_RULES\<close>: issue to material to size to \<^verbatim>\<open>[min_p, max_p, min_d, max_d]\<close>, each level a
  dict in the order of the JSON file; the four numbers are \<^verbatim>\<open>int\<close>s.
\<close>

type_synonym bucket = "(string \<times> int \<times> int \<times> int \<times> int) list"
type_synonym rules = "(string \<times> bucket) list"
type_synonym price_rules = "(string \<times> rules) list"

text \<open>Lines 239 to 243: the three tiers.\<close>

definition tiers :: "int \<times> int \<times> int \<times> int \<Rightarrow> estimate" where
  "tiers b =
     (case b of (min_p, max_p, min_d, max_d) \<Rightarrow>
        \<lparr>budget = \<lparr>price = py_round (float_mul (float_of_int min_p) (float_literal (9 / 10))),
                    days = [min_d, max min_d (min_d + 1)]\<rparr>,
         standard = \<lparr>price = py_round (int_truediv (min_p + max_p) 2),
                      days = [min_d, max_d]\<rparr>,
         rush = \<lparr>price = py_round (float_mul (float_of_int max_p) (float_literal (5 / 4))),
                  days = [max 1 (min_d - 1), max 1 (max_d - 1)]\<rparr>\<rparr>)"

definition estimate_repair :: "price_rules \<Rightarrow> val \<Rightarrow> val \<Rightarrow> val \<Rightarrow> exc + tool_result" where
  "estimate_repair price_rules issue material size_category =
     (case py_strip issue of
        Inl e \<Rightarrow> Inl e
      | Inr i \<Rightarrow>
     (case py_strip (py_or material (VStr ''any'')) of
        Inl e \<Rightarrow> Inl e
      | Inr m \<Rightarrow>
     (case py_strip (py_or size_category (VStr ''medium'')) of
        Inl e \<Rightarrow> Inl e
      | Inr s \<Rightarrow>
          (let issue = lower i; material = lower m; size = lower s in
           case map_of price_rules issue of
             None \<Rightarrow> Inr (Failure (''No pricing rule for issue '' @ quoted issue @ ''.''))
           | Some rules \<Rightarrow>
               (case rules of
                  [] \<Rightarrow> Inr (Failure (''No pricing rule for issue '' @ quoted issue @ ''.''))
                | first # _ \<Rightarrow>
                    (let bucket =
                       (case map_of rules material of
                          Some b \<Rightarrow> b
                        | None \<Rightarrow>
                            (case map_of rules ''any'' of
                               Some b \<Rightarrow> b
                             | None \<Rightarrow> snd first))
                     in case map_of bucket size of
                          None \<Rightarrow>
                            Inr (Failure (''Unsupported size_category '' @ quoted size
                                          @ ''. Use small/medium/large.''))
                        | Some b \<Rightarrow> Inr (Estimate issue material size (tiers b))))))))"

text \<open>
  The invariant of the rule table: in every entry the four numbers are non-negative and
  \<open>min \<le> max\<close> within each pair. \<open>rule_buckets\<close> lists the entries of the table.
\<close>

definition rule_buckets :: "price_rules \<Rightarrow> (int \<times> int \<times> int \<times> int) list" where
  "rule_buckets table =
     concat (map (\<lambda>(i, rules). concat (map (\<lambda>(m, bucket). map snd bucket) rules)) table)"

definition bucket_ok :: "int \<times> int \<times> int \<times> int \<Rightarrow> bool" where
  "bucket_ok b =
     (case b of (min_p, max_p, min_d, max_d) \<Rightarrow>
        0 \<le> min_p \<and> min_p \<le> max_p \<and> 0 \<le> min_d \<and> min_d \<le> max_d)"

definition rules_ok :: "price_rules \<Rightarrow> bool" where
  "rules_ok table = list_all bucket_ok (rule_buckets table)"

section \<open>\<^verbatim>\<open>tools.py\<close>: the three logs\<close>

text \<open>
  The files \<^verbatim>\<open>leads.jsonl\<close>, \<^verbatim>\<open>feedback.jsonl\<close> and \<^verbatim>\<open>service_feedback.jsonl\<close>: the entries
  appended so far, each the dict that is dumped on one line. \<open>ts\<close> is the reading of the
  clock, \<^verbatim>\<open>datetime.utcnow().isoformat()\<close>.
\<close>

record logs =
  leads :: "(string \<times> val) list list"
  feedback :: "(string \<times> val) list list"
  service_feedback :: "(string \<times> val) list list"

definition record_customer_interest :: "string \<Rightarrow> val \<Rightarrow> val \<Rightarrow> val \<Rightarrow> logs \<Rightarrow> tool_result \<times> logs" where
  "record_customer_interest ts email name' message l =
     (let entry = [(''ts'', VStr ts), (''email'', email), (''name'', name'), (''message'', message)]
      in (Ack (''Thanks! We'' @ [CHR 0x27] @ ''ll follow up soon.''), l\<lparr>leads := leads l @ [entry]\<rparr>))"

definition record_feedback :: "string \<Rightarrow> val \<Rightarrow> logs \<Rightarrow> tool_result \<times> logs" where
  "record_feedback ts question l =
     (let entry = [(''ts'', VStr ts), (''question'', question)]
      in (Ack (''Noted. We'' @ [CHR 0x27] @ ''ll improve our answers.''), l\<lparr>feedback := feedback l @ [entry]\<rparr>))"

definition record_service_feedback ::
  "string \<Rightarrow> val \<Rightarrow> val \<Rightarrow> val \<Rightarrow> val \<Rightarrow> val \<Rightarrow> logs \<Rightarrow> tool_result \<times> logs" where
  "record_service_feedback ts email name' service_type satisfaction comments l =
     (let entry = [(''ts'', VStr ts), (''email'', email), (''name'', name'),
                   (''service_type'', service_type), (''satisfaction'', satisfaction),
                   (''comments'', py_or comments (VStr []))]
      in (Ack (''Thanks for the feedback! We'' @ [CHR 0x27] @ ''ll share it with the team.''),
          l\<lparr>service_feedback := service_feedback l @ [entry]\<rparr>))"

section \<open>\<^verbatim>\<open>app.py\<close>: the dispatcher\<close>

text \<open>
  \<^verbatim>\<open>f(**args)\<close> for a function whose parameters are all positional-or-keyword: a key
  of \<open>args\<close> that is no parameter raises TypeError (the first such key); then the
  parameters with no default that \<open>args\<close> does not give raise TypeError together;
  otherwise every parameter has its value from \<open>args\<close> or its default. The texts are the
  interpreter's.
\<close>

fun name_list :: "string list \<Rightarrow> string" where
  "name_list [] = []"
| "name_list [a] = quoted a"
| "name_list [a, b] = quoted a @ '' and '' @ quoted b"
| "name_list (a # b # c # ds) =
     join '', '' (map quoted (butlast (a # b # c # ds))) @ '', and '' @ quoted (last (a # b # c # ds))"

definition bind_args ::
  "string \<Rightarrow> (string \<times> val option) list \<Rightarrow> (string \<times> val) list \<Rightarrow> exc + (string \<Rightarrow> val)" where
  "bind_args fname params args =
     (case List.find (\<lambda>kv. fst kv \<notin> fst ` set params) args of
        Some kv \<Rightarrow>
          Inl (TypeError (fname @ ''() got an unexpected keyword argument '' @ quoted (fst kv)))
      | None \<Rightarrow>
          (let missing =
                 filter (\<lambda>p. map_of args p = None) (map fst (filter (\<lambda>pd. snd pd = None) params))
           in if missing \<noteq> [] then
                Inl (TypeError
                  (fname @ ''() missing '' @ str_nat (length missing) @ '' required positional argument''
                   @ (if length missing = 1 then [] else ''s'') @ '': '' @ name_list missing))
              else
                Inr (\<lambda>p. case map_of args p of
                           Some v \<Rightarrow> v
                         | None \<Rightarrow> (case map_of params p of Some (Some d) \<Rightarrow> d | _ \<Rightarrow> VNone))))"

text \<open>The parameters of the five tools with their defaults, from the \<^verbatim>\<open>def\<close> lines of \<^verbatim>\<open>tools.py\<close>.\<close>

definition signature :: "string \<Rightarrow> (string \<times> val option) list" where
  "signature f =
     (if f = ''lookup_product'' then [(''query'', None)]
      else if f = ''estimate_repair'' then
        [(''issue'', None), (''material'', Some (VStr ''any'')), (''size_category'', Some (VStr ''medium''))]
      else if f = ''record_customer_interest'' then
        [(''email'', None), (''name'', None), (''message'', None)]
      else if f = ''record_feedback'' then [(''question'', None)]
      else if f = ''record_service_feedback'' then
        [(''email'', None), (''name'', None), (''service_type'', None), (''satisfaction'', None),
         (''comments'', Some (VStr []))]
      else [])"

text \<open>The module-level tables of \<^verbatim>\<open>tools.py\<close>.\<close>

record globals =
  CATALOG :: "catalog_item list"
  PRICE_RULES :: price_rules
  IKEA_ITEMS :: "ikea_item list"

text \<open>
  \<^verbatim>\<open>_call_tool\<close>: \<open>attempt\<close> is the body of the \<^verbatim>\<open>try\<close>, the final \<open>case\<close> is the
  \<^verbatim>\<open>except TypeError\<close> clause. No tool writes a log before it can raise, so the logs of
  the handler are the logs before the call.
\<close>

definition call_tool ::
  "globals \<Rightarrow> string \<Rightarrow> string \<Rightarrow> (string \<times> val) list \<Rightarrow> logs \<Rightarrow> exc + tool_result \<times> logs" where
  "call_tool G ts tool_name args l =
     (let attempt =
        (if tool_name = ''lookup_product'' then
           (case bind_args ''lookup_product'' (signature ''lookup_product'') args of
              Inl e \<Rightarrow> Inl e
            | Inr a \<Rightarrow>
                (case lookup_product (CATALOG G) (IKEA_ITEMS G) (a ''query'') of
                   Inl e \<Rightarrow> Inl e
                 | Inr r \<Rightarrow> Inr (r, l)))
         else if tool_name = ''estimate_repair'' then
           (case bind_args ''estimate_repair'' (signature ''estimate_repair'') args of
              Inl e \<Rightarrow> Inl e
            | Inr a \<Rightarrow>
                (case estimate_repair (PRICE_RULES G) (a ''issue'') (a ''material'') (a ''size_category'') of
                   Inl e \<Rightarrow> Inl e
                 | Inr r \<Rightarrow> Inr (r, l)))
         else if tool_name = ''record_customer_interest'' then
           (case bind_args ''record_customer_interest'' (signature ''record_customer_interest'') args of
              Inl e \<Rightarrow> Inl e
            | Inr a \<Rightarrow> Inr (record_customer_interest ts (a ''email'') (a ''name'') (a ''message'') l))
         else if tool_name = ''record_feedback'' then
           (case bind_args ''record_feedback'' (signature ''record_feedback'') args of
              Inl e \<Rightarrow> Inl e
            | Inr a \<Rightarrow> Inr (record_feedback ts (a ''question'') l))
         else if tool_name = ''record_service_feedback'' then
           (case bind_args ''record_service_feedback'' (signature ''record_service_feedback'') args of
              Inl e \<Rightarrow> Inl e
            | Inr a \<Rightarrow>
                Inr (record_service_feedback ts (a ''email'') (a ''name'') (a ''service_type'')
                       (a ''satisfaction'') (a ''comments'') l))
         else Inr (Failure (''Unknown tool '' @ quoted tool_name @ ''.''), l))
      in case attempt of
           Inl (TypeError msg) \<Rightarrow>
             Inr (Failure (''Invalid arguments for '' @ tool_name @ '': '' @ msg), l)
         | Inl e \<Rightarrow> Inl e
         | Inr r \<Rightarrow> Inr r)"

section \<open>\<^verbatim>\<open>app.py\<close>: the orchestrator\<close>

text \<open>
  What the client library returns. A structured value of a function call's arguments is a
  \<open>pvalue\<close>. A part's \<open>function_call\<close> is \<open>None\<close> when the part carries none (the
  attribute is false). A candidate is \<open>None\<close> when it or its content is false, else its
  parts. \<open>response_text\<close> is the value of the accessor \<^verbatim>\<open>response.text\<close>.
\<close>

datatype pvalue =
    PNull
  | PNum rat
  | PStr string
  | PBool bool
  | PStruct "(string \<times> pvalue) list"
  | PList "pvalue list"

datatype function_call = FunctionCall (fc_name: string) (fc_args: "(string \<times> pvalue) list option")

datatype part = Part (function_call: "function_call option")

record response =
  candidates :: "part list option list"
  response_text :: "string option"

primrec proto_to_python :: "pvalue \<Rightarrow> val" where
  "proto_to_python PNull = VNone"
| "proto_to_python (PNum x) = VNum x"
| "proto_to_python (PStr s) = VStr s"
| "proto_to_python (PBool b) = VBool b"
| "proto_to_python (PStruct kvs) = VDict (map (map_prod id proto_to_python) kvs)"
| "proto_to_python (PList vs) = VList (map proto_to_python vs)"

definition function_args_to_dict :: "function_call \<Rightarrow> (string \<times> val) list" where
  "function_args_to_dict fc =
     (case fc_args fc of
        None \<Rightarrow> []
      | Some kvs \<Rightarrow> map (map_prod id proto_to_python) kvs)"

text \<open>\<^verbatim>\<open>_first_function_call\<close>: the inner loop over the parts, the outer loop over the candidates.\<close>

fun first_in_parts :: "part list \<Rightarrow> function_call option" where
  "first_in_parts [] = None"
| "first_in_parts (p # ps) =
     (case function_call p of Some fc \<Rightarrow> Some fc | None \<Rightarrow> first_in_parts ps)"

fun first_in_candidates :: "part list option list \<Rightarrow> function_call option" where
  "first_in_candidates [] = None"
| "first_in_candidates (c # cs) =
     (case c of
        None \<Rightarrow> first_in_candidates cs
      | Some parts \<Rightarrow>
          (case first_in_parts parts of
             Some fc \<Rightarrow> Some fc
           | None \<Rightarrow> first_in_candidates cs))"

definition first_function_call :: "response \<Rightarrow> function_call option" where
  "first_function_call r = first_in_candidates (candidates r)"

text \<open>
  The messages of a chat session: a turn of the history (\<^verbatim>\<open>_content\<close>), the user's
  message, and the function-response message of \<^verbatim>\<open>_send_function_response\<close>.
\<close>

datatype message =
    Content string string
  | UserText string
  | FunctionResponse string tool_result

definition content :: "string \<Rightarrow> string \<Rightarrow> message option" where
  "content role txt = (if txt = [] then None else Some (Content role txt))"

fun convert_history :: "(string option \<times> string option) list \<Rightarrow> message list" where
  "convert_history [] = []"
| "convert_history ((user, assistant) # history) =
     (case user of None \<Rightarrow> [] | Some u \<Rightarrow> (case content ''user'' u of None \<Rightarrow> [] | Some m \<Rightarrow> [m]))
     @ (case assistant of None \<Rightarrow> [] | Some a \<Rightarrow> (case content ''model'' a of None \<Rightarrow> [] | Some m \<Rightarrow> [m]))
     @ convert_history history"

text \<open>
  The state of one call of \<^verbatim>\<open>chat_fn\<close>: the messages given to the chat session so far,
  and the log files. The hosted model is the sequence \<open>model\<close> of its responses: \<open>model k\<close>
  answers the message sent after \<open>k\<close> dispatches. \<open>clock k\<close> is the time during dispatch
  \<open>k\<close>.
\<close>

record chat_state =
  sent :: "message list"
  files :: logs

text \<open>
  The loop of \<^verbatim>\<open>chat_fn\<close> from the response \<open>model k\<close> on. The value is \<open>None\<close> when the
  loop never ends, \<open>Some (Inl e)\<close> when a dispatch raises \<open>e\<close>, and \<open>Some (Inr (t, st))\<close>
  when \<^verbatim>\<open>chat_fn\<close> returns \<open>t\<close>.
\<close>

partial_function (option) chat_loop ::
  "globals \<Rightarrow> (nat \<Rightarrow> string) \<Rightarrow> (nat \<Rightarrow> response) \<Rightarrow> nat \<Rightarrow> chat_state
     \<Rightarrow> (exc + string \<times> chat_state) option" where
  "chat_loop G clock model k st =
     (case first_function_call (model k) of
        None \<Rightarrow> Some (Inr (strip (case response_text (model k) of None \<Rightarrow> [] | Some t \<Rightarrow> t), st))
      | Some fc \<Rightarrow>
          (case call_tool G (clock k) (fc_name fc) (function_args_to_dict fc) (files st) of
             Inl e \<Rightarrow> Some (Inl e)
           | Inr rl \<Rightarrow>
               chat_loop G clock model (Suc k)
                 \<lparr>sent = sent st @ [FunctionResponse (fc_name fc) (fst rl)], files = snd rl\<rparr>))"

declare chat_loop.simps [code]

definition chat_fn ::
  "globals \<Rightarrow> (nat \<Rightarrow> string) \<Rightarrow> (nat \<Rightarrow> response) \<Rightarrow> logs \<Rightarrow> string
     \<Rightarrow> (string option \<times> string option) list \<Rightarrow> (exc + string \<times> chat_state) option" where
  "chat_fn G clock model l message history =
     chat_loop G clock model 0 \<lparr>sent = convert_history history @ [UserText message], files = l\<rparr>"

section \<open>Rounding\<close>

lemma py_round_of_int: "py_round (of_int n) = n"
  by (simp add: py_round_def)

lemma py_round_lower: "of_int a \<le> x \<Longrightarrow> a \<le> py_round x"
proof -
  assume "of_int a \<le> x"
  then have "a \<le> \<lfloor>x\<rfloor>" by (simp add: le_floor_iff)
  then show ?thesis by (simp add: py_round_def Let_def)
qed

lemma py_round_upper: "x \<le> of_int b \<Longrightarrow> py_round x \<le> b"
proof -
  assume h: "x \<le> of_int b"
  show ?thesis
  proof (cases "x = of_int b")
    case True
    then show ?thesis by (simp add: py_round_of_int)
  next
    case False
    with h have "x < of_int b" by simp
    then have "\<lfloor>x\<rfloor> < b" by (simp add: floor_less_iff)
    then show ?thesis by (simp add: py_round_def Let_def)
  qed
qed

lemma py_round_mono: "x \<le> y \<Longrightarrow> py_round x \<le> py_round y"
proof -
  assume h: "x \<le> y"
  have fm: "\<lfloor>x\<rfloor> \<le> \<lfloor>y\<rfloor>" using h by (rule floor_mono)
  show ?thesis
  proof (cases "\<lfloor>x\<rfloor> = \<lfloor>y\<rfloor>")
    case True
    then show ?thesis using h by (auto simp: py_round_def Let_def)
  next
    case False
    with fm have "\<lfloor>x\<rfloor> + 1 \<le> \<lfloor>y\<rfloor>" by simp
    moreover have "py_round x \<le> \<lfloor>x\<rfloor> + 1" by (simp add: py_round_def Let_def)
    moreover have "\<lfloor>y\<rfloor> \<le> py_round y" by (simp add: py_round_def Let_def)
    ultimately show ?thesis by linarith
  qed
qed

lemma py_round_half: "py_round (of_int n + 1 / 2) = (if even n then n else n + 1)"
proof -
  have "\<lfloor>(of_int n :: rat) + 1 / 2\<rfloor> = n" by linarith
  then show ?thesis by (simp add: py_round_def Let_def)
qed

section \<open>The binary exponent\<close>

lemma int_pow_le_rat:
  assumes "1 \<le> b" "2 ^ nat (b - 1) \<le> (p::int)"
  shows "(2::rat) powi (b - 1) \<le> of_int p"
proof -
  have "(of_int (2 ^ nat (b - 1)) :: rat) \<le> of_int p" using assms(2) by (simp only: of_int_le_iff)
  then show ?thesis using assms(1) by (simp add: power_int_def)
qed

lemma int_less_pow_rat:
  assumes "1 \<le> b" "(p::int) < 2 ^ nat b"
  shows "of_int p < (2::rat) powi b"
proof -
  have "(of_int p :: rat) < of_int (2 ^ nat b)" using assms(2) by (simp only: of_int_less_iff)
  then show ?thesis using assms(1) by (simp add: power_int_def)
qed

lemma expo_bounds:
  assumes "0 < x"
  shows "2 powi expo x \<le> x" and "x < 2 powi (expo x + 1)"
proof -
  obtain p q where pq: "quotient_of x = (p, q)" by (cases "quotient_of x")
  have q: "0 < q" using pq by (rule quotient_of_denom_pos)
  have x: "x = of_int p / of_int q" using pq by (rule quotient_of_div)
  have p: "0 < p" using assms q x by (simp add: zero_less_divide_iff)
  define k where "k = bitlen p - bitlen q"
  have bp1: "1 \<le> bitlen p" using p by (simp add: bitlen_alt_def)
  have bq1: "1 \<le> bitlen q" using q by (simp add: bitlen_alt_def)
  have P1: "(2::rat) powi (bitlen p - 1) \<le> of_int p"
    using bp1 bitlen_bounds[OF p] by (intro int_pow_le_rat) auto
  have P2: "of_int p < (2::rat) powi (bitlen p)"
    using bp1 bitlen_bounds[OF p] by (intro int_less_pow_rat) auto
  have Q1: "(2::rat) powi (bitlen q - 1) \<le> of_int q"
    using bq1 bitlen_bounds[OF q] by (intro int_pow_le_rat) auto
  have Q2: "of_int q < (2::rat) powi (bitlen q)"
    using bq1 bitlen_bounds[OF q] by (intro int_less_pow_rat) auto
  have qpos: "(0::rat) < of_int q" using q by simp
  have lo: "(2::rat) powi (k - 1) < x"
  proof -
    have "(2::rat) powi (k - 1) * of_int q < 2 powi (k - 1) * 2 powi (bitlen q)"
      using Q2 by (simp add: mult_strict_left_mono)
    also have "\<dots> = 2 powi (bitlen p - 1)"
      by (simp add: k_def power_int_add[symmetric])
    also have "\<dots> \<le> of_int p" by (rule P1)
    finally show ?thesis using qpos by (simp add: x pos_less_divide_eq)
  qed
  have hi: "x < (2::rat) powi (k + 1)"
  proof -
    have "of_int p < (2::rat) powi (bitlen p)" by (rule P2)
    also have "\<dots> = 2 powi (k + 1) * 2 powi (bitlen q - 1)"
      by (simp add: k_def power_int_add[symmetric])
    also have "\<dots> \<le> 2 powi (k + 1) * of_int q"
      using Q1 by (simp add: mult_left_mono)
    finally show ?thesis using qpos by (simp add: x pos_divide_less_eq)
  qed
  have e: "expo x = (if 2 powi k \<le> x then k else k - 1)"
    by (simp add: expo_def pq k_def Let_def)
  show "2 powi expo x \<le> x" using lo by (simp add: e)
  show "x < 2 powi (expo x + 1)" using hi by (auto simp: e not_le)
qed

lemma pow2_less_imp_less:
  assumes "(2::rat) powi a < 2 powi b"
  shows "a < b"
  using assms by (metis not_less power_int_increasing one_le_numeral)

lemma expo_unique:
  assumes "0 < x" "2 powi e \<le> x" "x < 2 powi (e + 1)"
  shows "expo x = e"
proof -
  have b: "2 powi expo x \<le> x" "x < 2 powi (expo x + 1)" using expo_bounds[OF assms(1)] by auto
  have "(2::rat) powi e < 2 powi (expo x + 1)" using assms(2) b(2) by linarith
  then have 1: "e < expo x + 1" by (rule pow2_less_imp_less)
  have "(2::rat) powi expo x < 2 powi (e + 1)" using assms(3) b(1) by linarith
  then have 2: "expo x < e + 1" by (rule pow2_less_imp_less)
  show ?thesis using 1 2 by linarith
qed

lemma expo_mono:
  assumes "0 < x" "x \<le> y"
  shows "expo x \<le> expo y"
proof -
  have y: "0 < y" using assms by linarith
  have "(2::rat) powi expo x \<le> x" using expo_bounds(1)[OF assms(1)] .
  also have "x \<le> y" by fact
  also have "y < 2 powi (expo y + 1)" using expo_bounds(2)[OF y] .
  finally have "expo x < expo y + 1" by (rule pow2_less_imp_less)
  then show ?thesis by linarith
qed

lemma pow52: "(2::rat) ^ 52 * 2 powi (e - 52) = 2 powi e"
proof -
  have "(2::rat) powi 52 * 2 powi (e - 52) = 2 powi (52 + (e - 52))"
    by (subst power_int_add) simp_all
  then show ?thesis by simp
qed

lemma pow53: "(2::rat) ^ 53 * 2 powi (e - 52) = 2 powi (e + 1)"
proof -
  have "(2::rat) powi 53 * 2 powi (e - 52) = 2 powi (53 + (e - 52))"
    by (subst power_int_add) simp_all
  then show ?thesis by (simp add: add.commute)
qed

section \<open>Rounding to binary64 is monotone and idempotent\<close>

lemma scaled_bounds:
  assumes "0 < x"
  shows "2 ^ 52 \<le> x / 2 powi (expo x - 52)" and "x / 2 powi (expo x - 52) < 2 ^ 53"
proof -
  have pos: "(0::rat) < 2 powi (expo x - 52)" by simp
  show "2 ^ 52 \<le> x / 2 powi (expo x - 52)"
    using expo_bounds(1)[OF assms] pos pow52[of "expo x"] by (simp add: pos_le_divide_eq)
  show "x / 2 powi (expo x - 52) < 2 ^ 53"
    using expo_bounds(2)[OF assms] pos pow53[of "expo x"] by (simp add: pos_divide_less_eq)
qed

lemma mant_bounds:
  assumes "0 < x"
  shows "2 ^ 52 \<le> py_round (x / 2 powi (expo x - 52))"
    and "py_round (x / 2 powi (expo x - 52)) \<le> 2 ^ 53"
proof -
  have "of_int (2 ^ 52) \<le> x / 2 powi (expo x - 52)" using scaled_bounds(1)[OF assms] by simp
  then show "2 ^ 52 \<le> py_round (x / 2 powi (expo x - 52))" by (rule py_round_lower)
  have "x / 2 powi (expo x - 52) \<le> of_int (2 ^ 53)" using scaled_bounds(2)[OF assms] by simp
  then show "py_round (x / 2 powi (expo x - 52)) \<le> 2 ^ 53" by (rule py_round_upper)
qed

lemma binary64_pos_bounds:
  assumes "0 < x"
  shows "2 powi expo x \<le> binary64_pos x" and "binary64_pos x \<le> 2 powi (expo x + 1)"
proof -
  let ?e = "expo x - 52"
  let ?m = "py_round (x / 2 powi ?e)"
  have pos: "(0::rat) < 2 powi ?e" by simp
  have m1: "(2::rat) ^ 52 \<le> of_int ?m"
  proof -
    have "(of_int (2 ^ 52) :: rat) \<le> of_int ?m"
      using mant_bounds(1)[OF assms] by (simp only: of_int_le_iff)
    then show ?thesis by simp
  qed
  have m2: "of_int ?m \<le> (2::rat) ^ 53"
  proof -
    have "(of_int ?m :: rat) \<le> of_int (2 ^ 53)"
      using mant_bounds(2)[OF assms] by (simp only: of_int_le_iff)
    then show ?thesis by simp
  qed
  have "2 powi expo x = (2::rat) ^ 52 * 2 powi ?e" using pow52[of "expo x"] by simp
  also have "\<dots> \<le> of_int ?m * 2 powi ?e" using m1 pos by (simp add: mult_right_mono)
  finally show "2 powi expo x \<le> binary64_pos x" by (simp add: binary64_pos_def Let_def)
  have "of_int ?m * 2 powi ?e \<le> (2::rat) ^ 53 * 2 powi ?e" using m2 pos by (simp add: mult_right_mono)
  also have "\<dots> = 2 powi (expo x + 1)" by (rule pow53)
  finally show "binary64_pos x \<le> 2 powi (expo x + 1)" by (simp add: binary64_pos_def Let_def)
qed

lemma binary64_pos_mono:
  assumes "0 < x" "x \<le> y"
  shows "binary64_pos x \<le> binary64_pos y"
proof -
  have y: "0 < y" using assms by linarith
  have le: "expo x \<le> expo y" using assms by (rule expo_mono)
  show ?thesis
  proof (cases "expo x = expo y")
    case True
    have "x / 2 powi (expo y - 52) \<le> y / 2 powi (expo y - 52)"
      using assms(2) by (simp add: divide_right_mono)
    then have "py_round (x / 2 powi (expo y - 52)) \<le> py_round (y / 2 powi (expo y - 52))"
      by (rule py_round_mono)
    then have "(of_int (py_round (x / 2 powi (expo y - 52))) :: rat)
        \<le> of_int (py_round (y / 2 powi (expo y - 52)))"
      by (simp only: of_int_le_iff)
    then show ?thesis by (simp add: binary64_pos_def Let_def True mult_right_mono)
  next
    case False
    with le have "expo x + 1 \<le> expo y" by linarith
    then have "(2::rat) powi (expo x + 1) \<le> 2 powi expo y" by (rule power_int_increasing) simp
    with binary64_pos_bounds(2)[OF assms(1)] binary64_pos_bounds(1)[OF y] show ?thesis by linarith
  qed
qed

lemma binary64_pos_pos: "0 < x \<Longrightarrow> 0 < binary64_pos x"
proof -
  assume x: "0 < x"
  have "(0::rat) < 2 powi expo x" by simp
  with binary64_pos_bounds(1)[OF x] show ?thesis by linarith
qed

lemma binary64_pos_idem:
  assumes "0 < x"
  shows "binary64_pos (binary64_pos x) = binary64_pos x"
proof -
  let ?e = "expo x - 52"
  let ?m = "py_round (x / 2 powi ?e)"
  have pos: "(0::rat) < 2 powi ?e" by simp
  have y: "binary64_pos x = of_int ?m * 2 powi ?e" by (simp add: binary64_pos_def Let_def)
  have ypos: "0 < binary64_pos x" using assms by (rule binary64_pos_pos)
  show ?thesis
  proof (cases "?m = 2 ^ 53")
    case True
    have y2: "binary64_pos x = 2 powi (expo x + 1)"
      using pow53[of "expo x"] by (simp add: y True)
    have "(2::rat) powi (expo x + 1) < 2 powi (expo x + 1 + 1)"
      by (rule power_int_strict_increasing) simp_all
    then have e: "expo (binary64_pos x) = expo x + 1"
      using ypos by (intro expo_unique) (simp_all add: y2)
    have "binary64_pos x / 2 powi (expo x + 1 - 52) = 2 powi (expo x + 1 - (expo x + 1 - 52))"
      unfolding y2 by (subst power_int_diff) simp_all
    then have s: "binary64_pos x / 2 powi (expo x + 1 - 52) = of_int (2 ^ 52)" by simp
    have "binary64_pos (binary64_pos x) = of_int (py_round (of_int (2 ^ 52))) * 2 powi (expo x + 1 - 52)"
      unfolding binary64_pos_def[of "binary64_pos x"] Let_def e s ..
    also have "\<dots> = 2 ^ 52 * 2 powi (expo x + 1 - 52)" by (simp only: py_round_of_int) simp
    also have "\<dots> = 2 powi (expo x + 1)" by (rule pow52)
    finally show ?thesis by (simp only: y2)
  next
    case False
    with mant_bounds(2)[OF assms] have "?m < 2 ^ 53" by linarith
    then have "(of_int ?m :: rat) < of_int (2 ^ 53)" by (simp only: of_int_less_iff)
    then have m2: "(of_int ?m :: rat) < 2 ^ 53" by simp
    have "binary64_pos x < 2 ^ 53 * 2 powi ?e"
      unfolding y using m2 pos by (simp add: mult_strict_right_mono)
    then have "binary64_pos x < 2 powi (expo x + 1)" using pow53[of "expo x"] by simp
    then have e: "expo (binary64_pos x) = expo x"
      using ypos binary64_pos_bounds(1)[OF assms] by (intro expo_unique) simp_all
    have s: "binary64_pos x / 2 powi ?e = of_int ?m" unfolding y by simp
    have "binary64_pos (binary64_pos x) = of_int (py_round (of_int ?m)) * 2 powi ?e"
      unfolding binary64_pos_def[of "binary64_pos x"] Let_def e s ..
    then show ?thesis by (simp only: py_round_of_int y)
  qed
qed

lemma binary64_nonneg: "0 \<le> x \<Longrightarrow> 0 \<le> binary64 x"
  using binary64_pos_pos[of x] by (auto simp: binary64_def less_imp_le)

lemma binary64_mono: "0 \<le> x \<Longrightarrow> x \<le> y \<Longrightarrow> binary64 x \<le> binary64 y"
  using binary64_pos_mono[of x y] binary64_pos_pos[of y] by (auto simp: binary64_def less_imp_le)

lemma binary64_idem: "0 \<le> x \<Longrightarrow> binary64 (binary64 x) = binary64 x"
  using binary64_pos_idem[of x] binary64_pos_pos[of x] by (auto simp: binary64_def)

lemma binary64_nine_tenths: "binary64 (9 / 10) = 8106479329266893 / 9007199254740992"
  by code_simp

lemma binary64_five_quarters: "binary64 (5 / 4) = 5 / 4"
  by code_simp

section \<open>The prices of the three tiers\<close>

lemma budget_le_float: "0 \<le> n \<Longrightarrow> float_mul (float_of_int n) (float_literal (9 / 10)) \<le> float_of_int n"
proof -
  assume n: "0 \<le> n"
  let ?f = "binary64 (of_int n)"
  have f: "0 \<le> ?f" using n by (intro binary64_nonneg) simp
  have "?f * (8106479329266893 / 9007199254740992) \<le> ?f * 1"
    using f by (intro mult_left_mono) simp_all
  then have "binary64 (?f * (8106479329266893 / 9007199254740992)) \<le> binary64 ?f"
    using f by (intro binary64_mono) simp_all
  also have "\<dots> = ?f" using n by (intro binary64_idem) simp
  finally show ?thesis
    by (simp add: float_mul_def float_of_int_def float_literal_def binary64_nine_tenths)
qed

lemma float_le_rush: "0 \<le> n \<Longrightarrow> float_of_int n \<le> float_mul (float_of_int n) (float_literal (5 / 4))"
proof -
  assume n: "0 \<le> n"
  let ?f = "binary64 (of_int n)"
  have f: "0 \<le> ?f" using n by (intro binary64_nonneg) simp
  have "?f = binary64 ?f" using n by (intro binary64_idem[symmetric]) simp
  also have "\<dots> \<le> binary64 (?f * (5 / 4))"
    using f by (intro binary64_mono) simp_all
  finally show ?thesis
    by (simp add: float_mul_def float_of_int_def float_literal_def binary64_five_quarters)
qed

lemma float_le_mid:
  assumes "0 \<le> a" "a \<le> b"
  shows "float_of_int a \<le> int_truediv (a + b) 2"
proof -
  have "(of_int a :: rat) \<le> of_int b" using assms(2) by simp
  then have "(of_int a :: rat) \<le> (of_int a + of_int b) / 2" by simp
  then show ?thesis
    using assms(1) unfolding float_of_int_def int_truediv_def
    by (intro binary64_mono) simp_all
qed

lemma mid_le_float:
  assumes "0 \<le> a" "a \<le> b"
  shows "int_truediv (a + b) 2 \<le> float_of_int b"
proof -
  have "(of_int a :: rat) \<le> of_int b" using assms(2) by simp
  then have "(of_int a + of_int b) / 2 \<le> (of_int b :: rat)" by simp
  moreover have "0 \<le> (of_int a + of_int b :: rat) / 2" using assms by simp
  ultimately show ?thesis
    unfolding float_of_int_def int_truediv_def
    by (intro binary64_mono) simp_all
qed

lemma tiers_prices_ordered:
  assumes "0 \<le> min_p" "min_p \<le> max_p"
  shows "price (budget (tiers (min_p, max_p, min_d, max_d)))
           \<le> price (standard (tiers (min_p, max_p, min_d, max_d)))"
    and "price (standard (tiers (min_p, max_p, min_d, max_d)))
           \<le> price (rush (tiers (min_p, max_p, min_d, max_d)))"
proof -
  have mx: "0 \<le> max_p" using assms by linarith
  have "float_mul (float_of_int min_p) (float_literal (9 / 10)) \<le> int_truediv (min_p + max_p) 2"
    using budget_le_float[OF assms(1)] float_le_mid[OF assms] by linarith
  then show "price (budget (tiers (min_p, max_p, min_d, max_d)))
           \<le> price (standard (tiers (min_p, max_p, min_d, max_d)))"
    by (simp add: tiers_def py_round_mono)
  have "int_truediv (min_p + max_p) 2 \<le> float_mul (float_of_int max_p) (float_literal (5 / 4))"
    using mid_le_float[OF assms] float_le_rush[OF mx] by linarith
  then show "price (standard (tiers (min_p, max_p, min_d, max_d)))
           \<le> price (rush (tiers (min_p, max_p, min_d, max_d)))"
    by (simp add: tiers_def py_round_mono)
qed

section \<open>\<^verbatim>\<open>estimate_repair\<close>\<close>

lemma map_of_in_set: "map_of xs k = Some v \<Longrightarrow> (k, v) \<in> set xs"
  by (rule map_of_SomeD)

lemma rule_buckets_mem:
  "(i, rules) \<in> set table \<Longrightarrow> (m, bucket) \<in> set rules \<Longrightarrow> (s, b) \<in> set bucket
     \<Longrightarrow> b \<in> set (rule_buckets table)"
  by (force simp: rule_buckets_def)

text \<open>What \<^verbatim>\<open>estimate_repair\<close> does on three strings.\<close>

lemma estimate_repair_strings:
  "estimate_repair table (VStr issue) (VStr material) (VStr size_category) =
     (let i = lower (strip issue);
          m = lower (strip (if material = [] then ''any'' else material));
          s = lower (strip (if size_category = [] then ''medium'' else size_category))
      in case map_of table i of
           None \<Rightarrow> Inr (Failure (''No pricing rule for issue '' @ quoted i @ ''.''))
         | Some rules \<Rightarrow>
             (case rules of
                [] \<Rightarrow> Inr (Failure (''No pricing rule for issue '' @ quoted i @ ''.''))
              | first # _ \<Rightarrow>
                  (let bucket =
                     (case map_of rules m of
                        Some b \<Rightarrow> b
                      | None \<Rightarrow> (case map_of rules ''any'' of Some b \<Rightarrow> b | None \<Rightarrow> snd first))
                   in case map_of bucket s of
                        None \<Rightarrow>
                          Inr (Failure (''Unsupported size_category '' @ quoted s
                                        @ ''. Use small/medium/large.''))
                      | Some b \<Rightarrow> Inr (Estimate i m s (tiers b)))))"
  by (simp add: estimate_repair_def py_or_def Let_def)

text \<open>An estimate comes from an entry of the table.\<close>

lemma estimate_repair_raises:
  "py_strip issue = Inl e \<Longrightarrow> estimate_repair table issue material size_category = Inl e"
  "py_strip issue = Inr x1 \<Longrightarrow> py_strip (py_or material (VStr ''any'')) = Inl e
     \<Longrightarrow> estimate_repair table issue material size_category = Inl e"
  "py_strip issue = Inr x1 \<Longrightarrow> py_strip (py_or material (VStr ''any'')) = Inr x2
     \<Longrightarrow> py_strip (py_or size_category (VStr ''medium'')) = Inl e
     \<Longrightarrow> estimate_repair table issue material size_category = Inl e"
  by (simp_all add: estimate_repair_def)

lemma estimate_repair_returns:
  assumes "py_strip issue = Inr x1" "py_strip (py_or material (VStr ''any'')) = Inr x2"
    "py_strip (py_or size_category (VStr ''medium'')) = Inr x3"
  shows "estimate_repair table issue material size_category =
     (case map_of table (lower x1) of
        None \<Rightarrow> Inr (Failure (''No pricing rule for issue '' @ quoted (lower x1) @ ''.''))
      | Some rules \<Rightarrow>
          (case rules of
             [] \<Rightarrow> Inr (Failure (''No pricing rule for issue '' @ quoted (lower x1) @ ''.''))
           | first # _ \<Rightarrow>
               (case map_of
                       (case map_of rules (lower x2) of
                          Some b \<Rightarrow> b
                        | None \<Rightarrow> (case map_of rules ''any'' of Some b \<Rightarrow> b | None \<Rightarrow> snd first))
                       (lower x3) of
                  None \<Rightarrow>
                    Inr (Failure (''Unsupported size_category '' @ quoted (lower x3)
                                  @ ''. Use small/medium/large.''))
                | Some b \<Rightarrow> Inr (Estimate (lower x1) (lower x2) (lower x3) (tiers b)))))"
  by (simp add: estimate_repair_def assms Let_def split: option.splits list.splits)

lemma estimate_repair_Estimate:
  assumes "estimate_repair table issue material size_category = Inr (Estimate i m s t)"
  shows "\<exists>b \<in> set (rule_buckets table). t = tiers b"
proof -
  obtain x1 where x1: "py_strip issue = Inr x1"
    using assms estimate_repair_raises(1)[of issue _ table material size_category]
    by (cases "py_strip issue") auto
  obtain x2 where x2: "py_strip (py_or material (VStr ''any'')) = Inr x2"
    using assms estimate_repair_raises(2)[OF x1, of material _ table size_category]
    by (cases "py_strip (py_or material (VStr ''any''))") auto
  obtain x3 where x3: "py_strip (py_or size_category (VStr ''medium'')) = Inr x3"
    using assms estimate_repair_raises(3)[OF x1 x2, of size_category _ table]
    by (cases "py_strip (py_or size_category (VStr ''medium''))") auto
  note eq = estimate_repair_returns[OF x1 x2 x3, of table]
  obtain rules where r1: "map_of table (lower x1) = Some rules"
    using assms unfolding eq by (cases "map_of table (lower x1)") auto
  obtain first rest where r2: "rules = first # rest"
    using assms unfolding eq r1 by (cases rules) auto
  define bucket where "bucket = (case map_of rules (lower x2) of Some b \<Rightarrow> b
              | None \<Rightarrow> (case map_of rules ''any'' of Some b \<Rightarrow> b | None \<Rightarrow> snd first))"
  have eq2: "estimate_repair table issue material size_category =
     (case map_of bucket (lower x3) of
                  None \<Rightarrow>
                    Inr (Failure (''Unsupported size_category '' @ quoted (lower x3)
                                  @ ''. Use small/medium/large.''))
                | Some b \<Rightarrow> Inr (Estimate (lower x1) (lower x2) (lower x3) (tiers b)))"
    unfolding eq r1 bucket_def by (simp only: r2 option.case list.case)
  obtain b where b: "map_of bucket (lower x3) = Some b" "t = tiers b" "i = lower x1"
    using assms unfolding eq2 by (cases "map_of bucket (lower x3)") auto
  have r: "map_of table i = Some rules" using r1 b(3) by simp
  have bk: "bucket = (case map_of rules (lower x2) of Some b \<Rightarrow> b
              | None \<Rightarrow> (case map_of rules ''any'' of Some b \<Rightarrow> b | None \<Rightarrow> snd first))"
    by (rule bucket_def)
  have 1: "(i, rules) \<in> set table" using r by (rule map_of_SomeD)
  have "\<exists>k. (k, bucket) \<in> set rules"
  proof (cases "map_of rules (lower x2)")
    case (Some b1)
    then have "(lower x2, b1) \<in> set rules" by (rule map_of_SomeD)
    then show ?thesis using bk Some by auto
  next
    case None
    show ?thesis
    proof (cases "map_of rules ''any''")
      case (Some b2)
      then have "(''any'', b2) \<in> set rules" by (rule map_of_SomeD)
      then show ?thesis using bk None Some by auto
    next
      case N2: None
      have "first \<in> set rules" by (simp add: r2)
      then have "(fst first, bucket) \<in> set rules" using bk None N2 by simp
      then show ?thesis ..
    qed
  qed
  then obtain k where 2: "(k, bucket) \<in> set rules" ..
  have 3: "(lower x3, b) \<in> set bucket" using b(1) by (rule map_of_SomeD)
  show ?thesis using rule_buckets_mem[OF 1 2 3] b(2) by blast
qed

text \<open>
  C4. Whenever \<^verbatim>\<open>estimate_repair\<close> returns an estimate from a rule table whose entries
  satisfy the invariant (four non-negative numbers, min \<le> max in each pair), the tiers
  are those of an entry \<open>(min_p, max_p, min_d, max_d)\<close> of the table, with
  budget.price = round(min_p * 0.9), standard.price = round((min_p + max_p) / 2),
  rush.price = round(max_p * 1.25), and budget.price \<le> standard.price \<le> rush.price.
\<close>

theorem estimate_repair_prices_ordered:
  assumes "estimate_repair table issue material size_category = Inr (Estimate i m s t)"
    and "rules_ok table"
  shows "price (budget t) \<le> price (standard t) \<and> price (standard t) \<le> price (rush t)
     \<and> (\<exists>min_p max_p min_d max_d.
          (min_p, max_p, min_d, max_d) \<in> set (rule_buckets table)
        \<and> 0 \<le> min_p \<and> min_p \<le> max_p
        \<and> price (budget t) = py_round (float_mul (float_of_int min_p) (float_literal (9 / 10)))
        \<and> price (standard t) = py_round (int_truediv (min_p + max_p) 2)
        \<and> price (rush t) = py_round (float_mul (float_of_int max_p) (float_literal (5 / 4))))"
proof -
  from estimate_repair_Estimate[OF assms(1)] obtain b
    where b: "b \<in> set (rule_buckets table)" "t = tiers b" by blast
  obtain min_p max_p min_d max_d where q: "b = (min_p, max_p, min_d, max_d)"
    by (cases b) auto
  have "bucket_ok b" using assms(2) b(1) by (simp add: rules_ok_def list_all_iff)
  then have inv: "0 \<le> min_p" "min_p \<le> max_p" by (simp_all add: bucket_ok_def q)
  have o1: "price (budget t) \<le> price (standard t)"
    unfolding b(2) q using inv by (rule tiers_prices_ordered(1))
  have o2: "price (standard t) \<le> price (rush t)"
    unfolding b(2) q using inv by (rule tiers_prices_ordered(2))
  have "(min_p, max_p, min_d, max_d) \<in> set (rule_buckets table)
        \<and> 0 \<le> min_p \<and> min_p \<le> max_p
        \<and> price (budget t) = py_round (float_mul (float_of_int min_p) (float_literal (9 / 10)))
        \<and> price (standard t) = py_round (int_truediv (min_p + max_p) 2)
        \<and> price (rush t) = py_round (float_mul (float_of_int max_p) (float_literal (5 / 4)))"
    using b(1) inv by (simp add: b(2) q tiers_def)
  then have "\<exists>min_p max_p min_d max_d.
          (min_p, max_p, min_d, max_d) \<in> set (rule_buckets table)
        \<and> 0 \<le> min_p \<and> min_p \<le> max_p
        \<and> price (budget t) = py_round (float_mul (float_of_int min_p) (float_literal (9 / 10)))
        \<and> price (standard t) = py_round (int_truediv (min_p + max_p) 2)
        \<and> price (rush t) = py_round (float_mul (float_of_int max_p) (float_literal (5 / 4)))"
    by (intro exI)
  with o1 o2 show ?thesis by (intro conjI)
qed

theorem estimate_repair_prices_ordered_witness:
  "estimate_repair [(''scratch'', [(''any'', [(''medium'', (5, 15, 1, 1))])])]
       (VStr ''scratch'') (VStr ''any'') (VStr ''medium'')
     = Inr (Estimate ''scratch'' ''any'' ''medium''
         \<lparr>budget = \<lparr>price = 4, days = [1, 2]\<rparr>,
          standard = \<lparr>price = 10, days = [1, 1]\<rparr>,
          rush = \<lparr>price = 19, days = [1, 1]\<rparr>\<rparr>)
   \<and> rules_ok [(''scratch'', [(''any'', [(''medium'', (5, 15, 1, 1))])])]
   \<and> (4::int) \<le> 10 \<and> (10::int) \<le> 19"
proof -
  let ?table = "[(''scratch'', [(''any'', [(''medium'', (5, 15, 1, 1))])])]"
  let ?t = "\<lparr>budget = \<lparr>price = 4, days = [1, 2]\<rparr>,
          standard = \<lparr>price = 10, days = [1, 1]\<rparr>,
          rush = \<lparr>price = 19, days = [1, 1]\<rparr>\<rparr>"
  have e: "estimate_repair ?table (VStr ''scratch'') (VStr ''any'') (VStr ''medium'')
     = Inr (Estimate ''scratch'' ''any'' ''medium'' ?t)"
    by code_simp
  have ok: "rules_ok ?table" by code_simp
  from estimate_repair_prices_ordered[OF e ok] have "(4::int) \<le> 10 \<and> (10::int) \<le> 19"
    by simp
  with e ok show ?thesis by (intro conjI) simp_all
qed

text \<open>
  C5. On the resolved bucket (80, 150, 2, 4) the tiers are budget 72 with days [2, 3],
  standard 115 with days [2, 4] and rush 188 with days [1, 3]; so does the call
  \<^verbatim>\<open>estimate_repair("wobble", "wood", "large")\<close> on a table with that bucket. \<^verbatim>\<open>round\<close>
  rounds a half to the even neighbour everywhere, so round(187.5) = 188. For every bucket
  budget.days = [min_d, max(min_d, min_d + 1)], standard.days = [min_d, max_d] and
  rush.days = [max(1, min_d - 1), max(1, max_d - 1)].
\<close>

theorem estimate_repair_scenario:
  "tiers (80, 150, 2, 4) =
       \<lparr>budget = \<lparr>price = 72, days = [2, 3]\<rparr>,
        standard = \<lparr>price = 115, days = [2, 4]\<rparr>,
        rush = \<lparr>price = 188, days = [1, 3]\<rparr>\<rparr>
   \<and> estimate_repair [(''wobble'', [(''wood'', [(''large'', (80, 150, 2, 4))])])]
       (VStr ''wobble'') (VStr ''wood'') (VStr ''large'')
     = Inr (Estimate ''wobble'' ''wood'' ''large''
         \<lparr>budget = \<lparr>price = 72, days = [2, 3]\<rparr>,
          standard = \<lparr>price = 115, days = [2, 4]\<rparr>,
          rush = \<lparr>price = 188, days = [1, 3]\<rparr>\<rparr>)
   \<and> float_mul (float_of_int 150) (float_literal (5 / 4)) = 375 / 2
   \<and> py_round (375 / 2) = 188
   \<and> (\<forall>n. py_round (of_int n + 1 / 2) = (if even n then n else n + 1))
   \<and> (\<forall>min_p max_p min_d max_d.
        days (budget (tiers (min_p, max_p, min_d, max_d))) = [min_d, max min_d (min_d + 1)]
      \<and> days (standard (tiers (min_p, max_p, min_d, max_d))) = [min_d, max_d]
      \<and> days (rush (tiers (min_p, max_p, min_d, max_d))) = [max 1 (min_d - 1), max 1 (max_d - 1)])"
proof -
  have 1: "tiers (80, 150, 2, 4) =
       \<lparr>budget = \<lparr>price = 72, days = [2, 3]\<rparr>,
        standard = \<lparr>price = 115, days = [2, 4]\<rparr>,
        rush = \<lparr>price = 188, days = [1, 3]\<rparr>\<rparr>"
    by code_simp
  have 2: "estimate_repair [(''wobble'', [(''wood'', [(''large'', (80, 150, 2, 4))])])]
       (VStr ''wobble'') (VStr ''wood'') (VStr ''large'')
     = Inr (Estimate ''wobble'' ''wood'' ''large''
         \<lparr>budget = \<lparr>price = 72, days = [2, 3]\<rparr>,
          standard = \<lparr>price = 115, days = [2, 4]\<rparr>,
          rush = \<lparr>price = 188, days = [1, 3]\<rparr>\<rparr>)"
    by code_simp
  have 3: "float_mul (float_of_int 150) (float_literal (5 / 4)) = 375 / 2" by code_simp
  have 4: "py_round (375 / 2) = 188" by code_simp
  have 5: "\<forall>n. py_round (of_int n + 1 / 2) = (if even n then n else n + 1)"
    using py_round_half by blast
  have 6: "\<forall>min_p max_p min_d max_d.
        days (budget (tiers (min_p, max_p, min_d, max_d))) = [min_d, max min_d (min_d + 1)]
      \<and> days (standard (tiers (min_p, max_p, min_d, max_d))) = [min_d, max_d]
      \<and> days (rush (tiers (min_p, max_p, min_d, max_d))) = [max 1 (min_d - 1), max 1 (max_d - 1)]"
    by (simp add: tiers_def)
  show ?thesis by (intro conjI 1 2 3 4 5 6)
qed

text \<open>
  C7. For a known issue (its rules exist and are not empty) the bucket is the entry of
  the normalized material when the rules have one; else the entry of \<^verbatim>\<open>"any"\<close> when
  the rules have one; else the first entry of the rules. The result is the failure for
  an unsupported size, or the estimate from that bucket. Here \<open>i\<close>, \<open>m\<close> and \<open>s\<close> are
  the stripped issue, material (or \<^verbatim>\<open>"any"\<close>) and size (or \<^verbatim>\<open>"medium"\<close>) before
  lowercasing.
\<close>

theorem estimate_repair_bucket_precedence:
  assumes "py_strip issue = Inr i"
    and "py_strip (py_or material (VStr ''any'')) = Inr m"
    and "py_strip (py_or size_category (VStr ''medium'')) = Inr s"
    and "map_of table (lower i) = Some rules"
    and "rules \<noteq> []"
  shows "\<exists>bucket.
      (\<forall>b. map_of rules (lower m) = Some b \<longrightarrow> bucket = b)
    \<and> (\<forall>b. map_of rules (lower m) = None \<and> map_of rules ''any'' = Some b \<longrightarrow> bucket = b)
    \<and> (map_of rules (lower m) = None \<and> map_of rules ''any'' = None \<longrightarrow> bucket = snd (hd rules))
    \<and> estimate_repair table issue material size_category =
        (case map_of bucket (lower s) of
           None \<Rightarrow>
             Inr (Failure (''Unsupported size_category '' @ quoted (lower s)
                           @ ''. Use small/medium/large.''))
         | Some b \<Rightarrow> Inr (Estimate (lower i) (lower m) (lower s) (tiers b)))"
proof -
  let ?res = "\<lambda>bucket. case map_of bucket (lower s) of
           None \<Rightarrow>
             Inr (Failure (''Unsupported size_category '' @ quoted (lower s)
                           @ ''. Use small/medium/large.''))
         | Some b \<Rightarrow> Inr (Estimate (lower i) (lower m) (lower s) (tiers b))"
  obtain first rest where fr: "rules = first # rest" using assms(5) by (cases rules) auto
  have eq: "estimate_repair table issue material size_category =
      ?res (case map_of rules (lower m) of
              Some b \<Rightarrow> b
            | None \<Rightarrow> (case map_of rules ''any'' of Some b \<Rightarrow> b | None \<Rightarrow> snd (hd rules)))"
    unfolding estimate_repair_returns[OF assms(1-3)] assms(4)
    by (simp only: fr option.case list.case list.sel)
  show ?thesis
  proof (cases "map_of rules (lower m)")
    case (Some b1)
    have r: "estimate_repair table issue material size_category = ?res b1"
      unfolding eq by (simp only: Some option.case)
    show ?thesis
    proof (intro exI[of _ b1] conjI allI impI)
      show "estimate_repair table issue material size_category = ?res b1" by (rule r)
    qed (use Some in simp_all)
  next
    case None
    show ?thesis
    proof (cases "map_of rules ''any''")
      case (Some b2)
      have r: "estimate_repair table issue material size_category = ?res b2"
        unfolding eq by (simp only: None Some option.case)
      show ?thesis
      proof (intro exI[of _ b2] conjI allI impI)
        show "estimate_repair table issue material size_category = ?res b2" by (rule r)
      qed (use None Some in simp_all)
    next
      case N2: None
      have r: "estimate_repair table issue material size_category = ?res (snd (hd rules))"
        unfolding eq by (simp only: None N2 option.case)
      show ?thesis
      proof (intro exI[of _ "snd (hd rules)"] conjI allI impI)
        show "estimate_repair table issue material size_category = ?res (snd (hd rules))" by (rule r)
      qed (use None N2 in simp_all)
    qed
  qed
qed

theorem estimate_repair_bucket_precedence_witness:
  "py_strip (VStr '' Wobble '') = Inr ''Wobble''
   \<and> py_strip (py_or (VStr ''Wood'') (VStr ''any'')) = Inr ''Wood''
   \<and> py_strip (py_or (VStr ''LARGE'') (VStr ''medium'')) = Inr ''LARGE''
   \<and> map_of [(''wobble'', [(''glass'', [(''large'', (1::int, 2::int, 3::int, 4::int))]),
                           (''any'', [(''large'', (80, 150, 2, 4))])])] (lower ''Wobble'')
       = Some [(''glass'', [(''large'', (1, 2, 3, 4))]), (''any'', [(''large'', (80, 150, 2, 4))])]
   \<and> [(''glass'', [(''large'', (1::int, 2::int, 3::int, 4::int))]),
       (''any'', [(''large'', (80, 150, 2, 4))])] \<noteq> []
   \<and> estimate_repair [(''wobble'', [(''glass'', [(''large'', (1, 2, 3, 4))]),
                         (''any'', [(''large'', (80, 150, 2, 4))])])]
        (VStr '' Wobble '') (VStr ''Wood'') (VStr ''LARGE'')
      = Inr (Estimate ''wobble'' ''wood'' ''large'' (tiers (80, 150, 2, 4)))"
proof -
  let ?rules = "[(''glass'', [(''large'', (1::int, 2::int, 3::int, 4::int))]),
                 (''any'', [(''large'', (80, 150, 2, 4))])]"
  let ?table = "[(''wobble'', ?rules)]"
  have h1: "py_strip (VStr '' Wobble '') = Inr ''Wobble''" by code_simp
  have h2: "py_strip (py_or (VStr ''Wood'') (VStr ''any'')) = Inr ''Wood''" by code_simp
  have h3: "py_strip (py_or (VStr ''LARGE'') (VStr ''medium'')) = Inr ''LARGE''" by code_simp
  have h4: "map_of ?table (lower ''Wobble'') = Some ?rules" by code_simp
  have h5: "?rules \<noteq> []" by (rule list.distinct(2))
  have l: "lower ''Wobble'' = ''wobble''" "lower ''Wood'' = ''wood''" "lower ''LARGE'' = ''large''"
    by code_simp+
  have m1: "map_of ?rules ''wood'' = None" by code_simp
  have m2: "map_of ?rules ''any'' = Some [(''large'', (80, 150, 2, 4))]" by code_simp
  from estimate_repair_bucket_precedence[OF h1 h2 h3 h4 h5]
  obtain bucket where
    a: "\<forall>b. map_of ?rules (lower ''Wood'') = None \<and> map_of ?rules ''any'' = Some b \<longrightarrow> bucket = b"
    and r: "estimate_repair ?table (VStr '' Wobble '') (VStr ''Wood'') (VStr ''LARGE'') =
        (case map_of bucket (lower ''LARGE'') of
           None \<Rightarrow>
             Inr (Failure (''Unsupported size_category '' @ quoted (lower ''LARGE'')
                           @ ''. Use small/medium/large.''))
         | Some b \<Rightarrow> Inr (Estimate (lower ''Wobble'') (lower ''Wood'') (lower ''LARGE'') (tiers b)))"
    by blast
  have bk: "bucket = [(''large'', (80, 150, 2, 4))]"
    using a[rule_format, of "[(''large'', (80, 150, 2, 4))]"] m1 m2 by (simp only: l)
  have sz: "map_of bucket ''large'' = Some (80, 150, 2, 4)" unfolding bk by code_simp
  have res: "estimate_repair ?table (VStr '' Wobble '') (VStr ''Wood'') (VStr ''LARGE'')
      = Inr (Estimate ''wobble'' ''wood'' ''large'' (tiers (80, 150, 2, 4)))"
    unfolding r l sz by (simp only: option.case)
  show ?thesis by (intro conjI h1 h2 h3 h4 h5 res)
qed

end
